theory Spec2Isabelle
  imports Complex_Main "HOL-Library.Signed_Division"
begin

section \<open>Data model\<close>

text \<open>
  Every \<^verbatim>\<open>MatrixXd\<close> of the program has three rows and one column per particle, so a
  matrix is the list of its columns and a column is a triple. A \<^verbatim>\<open>double\<close> is
  idealised as a real number: rounding, infinities and NaN are outside the model, and a
  division by a zero distance (coincident particles) takes HOL's value \<open>inverse 0 = 0\<close>
  where the program would produce a non-finite number; \<^verbatim>\<open>cbrt\<close> of the C library
  is the exact cube root. Where Eigen's index or size assertion would stop the program,
  and where the step counter of \<^verbatim>\<open>simulate\<close> would overflow, the model returns
  \<open>None\<close>.
\<close>

type_synonym vec3 = "real \<times> real \<times> real"

type_synonym matrix = "vec3 list"

text \<open>
  The coefficients \<^verbatim>\<open>SIGMA\<close> and \<^verbatim>\<open>EPSILON\<close> of the source; \<^verbatim>\<open>SIGMA\<close> is
  \<open>SIGMA_coeff\<close> here, since the plain name is Isabelle syntax.
\<close>

definition SIGMA_coeff :: real where
  "SIGMA_coeff = 1 / 10"

definition EPSILON :: real where
  "EPSILON = 1"

fun vadd :: "vec3 \<Rightarrow> vec3 \<Rightarrow> vec3" where
  "vadd (a, b, c) (x, y, z) = (a + x, b + y, c + z)"

fun vsub :: "vec3 \<Rightarrow> vec3 \<Rightarrow> vec3" where
  "vsub (a, b, c) (x, y, z) = (a - x, b - y, c - z)"

fun vscale :: "real \<Rightarrow> vec3 \<Rightarrow> vec3" where
  "vscale k (x, y, z) = (k * x, k * y, k * z)"

fun vnorm :: "vec3 \<Rightarrow> real" where
  "vnorm (x, y, z) = sqrt (x * x + y * y + z * z)"

definition vzero :: vec3 where
  "vzero = (0, 0, 0)"

text \<open>\<^verbatim>\<open>m.rowwise().sum()\<close>: the sum of the columns; the zero vector for no column.\<close>

definition rowwise_sum :: "matrix \<Rightarrow> vec3" where
  "rowwise_sum m = foldr vadd m vzero"

text \<open>\<^verbatim>\<open>m.block(0, j, 3, n)\<close>: the \<open>n\<close> columns from column \<open>j\<close> on.\<close>

definition block_cols :: "matrix \<Rightarrow> nat \<Rightarrow> nat \<Rightarrow> matrix" where
  "block_cols m j n = take n (drop j m)"

text \<open>\<^verbatim>\<open>m.col(i) = v\<close>: Eigen asserts that the column exists.\<close>

definition set_col :: "matrix \<Rightarrow> nat \<Rightarrow> vec3 \<Rightarrow> matrix option" where
  "set_col m i v = (if i < length m then Some (m[i := v]) else None)"

section \<open>The force engine\<close>

text \<open>
  \<^verbatim>\<open>calc_lenjon_force(vp, mp, mpo)\<close>: the matrix assigned to \<^verbatim>\<open>mpo\<close>, one
  column for every column of \<^verbatim>\<open>mp\<close>. The intermediate values keep the names of the
  source; \<open>rpn1m\<close> is \<^verbatim>\<open>rpn1\<close> after its reassignment. \<^verbatim>\<open>pow(7.0)\<close> and
  \<^verbatim>\<open>pow(13.0)\<close> are taken of \<open>SIGMA / r\<close>, which is not negative, so they are the
  powers \<open>x ^ 7\<close> and \<open>x ^ 13\<close>.
\<close>

definition calc_lenjon_force :: "vec3 \<Rightarrow> matrix \<Rightarrow> matrix" where
  "calc_lenjon_force vp mp =
     (let rp = map (\<lambda>p. vsub p vp) mp;
          rpn0 = map (\<lambda>d. inverse (vnorm d)) rp;
          rpn1 = map (\<lambda>x. x * SIGMA_coeff) rpn0;
          rpn1m = map (\<lambda>x. 24 * EPSILON * (2 * x ^ 7 - x ^ 13)) rpn1
      in map2 (\<lambda>d c. vscale c d) rp (map2 (*) rpn1m rpn0))"

text \<open>
  \<^verbatim>\<open>calc_accel(mp, ma)\<close>: the loop over the particle index, which the source calls
  \<^verbatim>\<open>pi\<close>.
\<close>

function calc_accel_loop :: "nat \<Rightarrow> matrix \<Rightarrow> matrix \<Rightarrow> matrix option" where
  "calc_accel_loop k mp ma =
     (if k < length mp then
        (let vp = mp ! k;
             mpo = calc_lenjon_force vp (block_cols mp (k + 1) (length mp - k - 1))
         in case set_col ma k (rowwise_sum mpo) of
              None \<Rightarrow> None
            | Some ma' \<Rightarrow> calc_accel_loop (k + 1) mp ma')
      else Some ma)"
  by pat_completeness auto
termination
  by (relation "measure (\<lambda>(k, mp, ma). length mp - k)") auto

definition calc_accel :: "matrix \<Rightarrow> matrix \<Rightarrow> matrix option" where
  "calc_accel mp ma = calc_accel_loop 0 mp ma"

section \<open>The boundary handler\<close>

text \<open>Row \<open>r\<close> of a column, and \<^verbatim>\<open>m(r, i) *= k\<close> with Eigen's index assertion.\<close>

fun coeff :: "vec3 \<Rightarrow> nat \<Rightarrow> real" where
  "coeff (x, y, z) r = (if r = 0 then x else if r = 1 then y else z)"

fun scale_row :: "nat \<Rightarrow> real \<Rightarrow> vec3 \<Rightarrow> vec3" where
  "scale_row r k (x, y, z) =
     (if r = 0 then (x * k, y, z) else if r = 1 then (x, y * k, z) else (x, y, z * k))"

definition mul_coeff :: "matrix \<Rightarrow> nat \<Rightarrow> nat \<Rightarrow> real \<Rightarrow> matrix option" where
  "mul_coeff m r i k =
     (if r < 3 \<and> i < length m then Some (m[i := scale_row r k (m ! i)]) else None)"

text \<open>
  The loop of \<^verbatim>\<open>border_handling\<close> over the particles; the parameters are in the
  order of the source's signature: left, right, top, bottom, front, back (\<open>top'\<close> is
  the parameter \<^verbatim>\<open>top\<close>).
\<close>

function border_loop ::
  "nat \<Rightarrow> matrix \<Rightarrow> matrix \<Rightarrow> real \<Rightarrow> real \<Rightarrow> real \<Rightarrow> real \<Rightarrow> real \<Rightarrow> real \<Rightarrow> matrix option" where
  "border_loop k mp mv left right top' bottom front back =
     (if k < length mp then
        (case (if coeff (mp ! k) 0 > right \<or> coeff (mp ! k) 0 < left
               then mul_coeff mv 0 k (- 1) else Some mv) of
           None \<Rightarrow> None
         | Some mv1 \<Rightarrow>
        (case (if coeff (mp ! k) 1 > top' \<or> coeff (mp ! k) 1 < bottom
               then mul_coeff mv1 1 k (- 1) else Some mv1) of
           None \<Rightarrow> None
         | Some mv2 \<Rightarrow>
        (case (if coeff (mp ! k) 2 > back \<or> coeff (mp ! k) 2 < front
               then mul_coeff mv2 2 k (- 1) else Some mv2) of
           None \<Rightarrow> None
         | Some mv3 \<Rightarrow> border_loop (k + 1) mp mv3 left right top' bottom front back)))
      else Some mv)"
  by pat_completeness auto
termination
  by (relation "measure (\<lambda>(k, mp, mv, left, right, top', bottom, front, back). length mp - k)")
    auto

text \<open>
  \<^verbatim>\<open>border_handling\<close> returns the two matrices it was given by reference;
  \<open>closed'\<close> is the parameter \<^verbatim>\<open>closed\<close>.
\<close>

definition border_handling ::
  "matrix \<Rightarrow> matrix \<Rightarrow> bool \<Rightarrow> real \<Rightarrow> real \<Rightarrow> real \<Rightarrow> real \<Rightarrow> real \<Rightarrow> real
     \<Rightarrow> (matrix \<times> matrix) option" where
  "border_handling mp mv closed' left right top' bottom front back =
     (if closed' then
        (case border_loop 0 mp mv left right top' bottom front back of
           None \<Rightarrow> None
         | Some mv' \<Rightarrow> Some (mp, mv'))
      else Some (mp, mv))"

section \<open>Initialisation\<close>

text \<open>
  \<^verbatim>\<open>cbrt\<close>, the cast \<^verbatim>\<open>(int)\<close> of a double (truncation towards zero) and
  \<^verbatim>\<open>fmod\<close> of the C library, on real numbers.
\<close>

definition cbrt :: "real \<Rightarrow> real" where
  "cbrt x = root 3 x"

definition c_trunc :: "real \<Rightarrow> int" where
  "c_trunc x = (if 0 \<le> x then \<lfloor>x\<rfloor> else \<lceil>x\<rceil>)"

definition fmod :: "real \<Rightarrow> real \<Rightarrow> real" where
  "fmod x y = x - of_int (c_trunc (x / y)) * y"

definition wrong_size_msg :: string where
  "wrong_size_msg = ''Error: Wrong size of particles.''"

text \<open>
  The loop of \<^verbatim>\<open>init_grid\<close>: \<open>k\<close> is the particle index, \<open>px\<close>, \<open>py\<close>,
  \<open>pz\<close> the counters, \<^verbatim>\<open>%\<close> of C++ is \<open>smod\<close>. The body runs only when there is
  a particle, and then \<^verbatim>\<open>(int)po\<close> is at least 1 (\<open>c_trunc_cbrt_pos\<close> below), so
  \<^verbatim>\<open>%\<close> never divides by zero.
\<close>

function init_grid_loop :: "nat \<Rightarrow> int \<Rightarrow> int \<Rightarrow> int \<Rightarrow> real \<Rightarrow> matrix \<Rightarrow> matrix" where
  "init_grid_loop k px py pz po mp =
     (if k < length mp then
        (let mp1 = mp[k := (of_int px, of_int py, of_int pz)];
             px1 = px + 1;
             px2 = (if px1 smod c_trunc po = 0 then 0 else px1);
             py2 = (if px1 smod c_trunc po = 0 then py + 1 else py);
             py3 = (if py2 \<noteq> 0 \<and> py2 smod c_trunc po = 0 then 0 else py2);
             pz3 = (if py2 \<noteq> 0 \<and> py2 smod c_trunc po = 0 then pz + 1 else pz)
         in init_grid_loop (k + 1) px2 py3 pz3 po mp1)
      else mp)"
  by pat_completeness auto
termination
  by (relation "measure (\<lambda>(k, px, py, pz, po, mp). length mp - k)") auto

text \<open>\<^verbatim>\<open>init_grid\<close>: the lines printed to \<^verbatim>\<open>cout\<close> and the position matrix.\<close>

definition init_grid :: "matrix \<Rightarrow> string list \<times> matrix" where
  "init_grid mp =
     (let po = cbrt (real (length mp))
      in (if fmod po 1 \<noteq> 0 then [wrong_size_msg] else [],
          init_grid_loop 0 0 0 0 po mp))"

text \<open>
  \<^verbatim>\<open>init_velocities\<close>: \<open>draw n\<close> is the \<open>n\<close>-th number that the generator of
  the source returns, three for every particle.
\<close>

definition init_velocities :: "(nat \<Rightarrow> real) \<Rightarrow> matrix \<Rightarrow> matrix" where
  "init_velocities draw mv =
     map (\<lambda>k. (draw (3 * k), draw (3 * k + 1), draw (3 * k + 2))) [0..<length mv]"

section \<open>The integrator\<close>

text \<open>
  The state of \<^verbatim>\<open>simulate\<close>: the three matrices, the lines printed to
  \<^verbatim>\<open>cout\<close>, and the snapshots handed to \<^verbatim>\<open>write\<close> (the step number and the
  position matrix that is written to the file of that number).
\<close>

record sim_state =
  positions :: matrix
  velocities :: matrix
  accelerations :: matrix
  stdout :: "string list"
  written :: "(nat \<times> matrix) list"

text \<open>Scaling a matrix, and the sum of two matrices, for which Eigen asserts equal sizes.\<close>

definition mscale :: "real \<Rightarrow> matrix \<Rightarrow> matrix" where
  "mscale k m = map (vscale k) m"

definition madd :: "matrix \<Rightarrow> matrix \<Rightarrow> matrix option" where
  "madd a b = (if length a = length b then Some (map2 vadd a b) else None)"

text \<open>
  One pass of the loop body of \<^verbatim>\<open>simulate\<close>, at step number \<open>ts\<close>. The variables
  keep the names of the source, numbered where the source assigns them again.
\<close>

definition simulate_step :: "nat \<Rightarrow> real \<Rightarrow> real \<Rightarrow> bool \<Rightarrow> sim_state \<Rightarrow> sim_state option" where
  "simulate_step ts td po serialize s =
     (case madd (positions s) (mscale td (velocities s)) of
        None \<Rightarrow> None
      | Some mp0 \<Rightarrow>
     (case madd mp0 (mscale (td ^ 2) (mscale (1 / 2) (accelerations s))) of
        None \<Rightarrow> None
      | Some mp1 \<Rightarrow>
     (let mal = accelerations s in
     (case calc_accel mp1 (accelerations s) of
        None \<Rightarrow> None
      | Some ma1 \<Rightarrow>
     (case madd ma1 mal of
        None \<Rightarrow> None
      | Some ma2 \<Rightarrow>
     (case madd (velocities s) (mscale td (mscale (1 / 2) ma2)) of
        None \<Rightarrow> None
      | Some mv1 \<Rightarrow>
     (case border_handling mp1 mv1 True 0 po 0 po 0 po of
        None \<Rightarrow> None
      | Some (mp2, mv2) \<Rightarrow>
          Some (s\<lparr>positions := mp2, velocities := mv2, accelerations := ma2,
                  written := (if serialize then written s @ [(ts, mp2)] else written s)\<rparr>))))))))"

text \<open>
  The main loop. The counter \<^verbatim>\<open>ts\<close> of the source is an \<^verbatim>\<open>int\<close> that starts at
  0 and is compared with the double \<^verbatim>\<open>tts\<close>; it is never negative, so it is a
  natural number here. Where \<^verbatim>\<open>ts++\<close> would pass \<open>INT_MAX\<close>, which is undefined
  behaviour in C++, the model returns \<open>None\<close>.
\<close>

definition INT_MAX :: nat where
  "INT_MAX = 2147483647"

function simulate_loop ::
  "nat \<Rightarrow> real \<Rightarrow> real \<Rightarrow> real \<Rightarrow> bool \<Rightarrow> sim_state \<Rightarrow> sim_state option" where
  "simulate_loop ts tts td po serialize s =
     (if real ts < tts then
        (case simulate_step ts td po serialize s of
           None \<Rightarrow> None
         | Some s' \<Rightarrow>
             if ts < INT_MAX then simulate_loop (ts + 1) tts td po serialize s' else None)
      else Some s)"
  by pat_completeness auto
termination
  by (relation "measure (\<lambda>(ts, tts, td, po, serialize, s). INT_MAX - ts)") auto

text \<open>
  \<^verbatim>\<open>simulate\<close>. The directory that \<^verbatim>\<open>init_serialize\<close> creates is named after the
  clock and is not part of the state.
\<close>

definition simulate ::
  "matrix \<Rightarrow> matrix \<Rightarrow> matrix \<Rightarrow> real \<Rightarrow> real \<Rightarrow> bool \<Rightarrow> sim_state option" where
  "simulate mp mv ma td tts serialize =
     (let po = cbrt (real (length mp));
          out = (if fmod po 1 \<noteq> 0 then [wrong_size_msg] else [])
      in case calc_accel mp ma of
           None \<Rightarrow> None
         | Some ma0 \<Rightarrow>
             simulate_loop 0 tts td po serialize
               \<lparr>positions = mp, velocities = mv, accelerations = ma0,
                stdout = out, written = []\<rparr>)"

section \<open>The specification's force law\<close>

text \<open>
  The three definitions of this section follow the words of the specification, not the
  source: the 12-6 potential \<open>U(r) = 4\<epsilon>[(\<sigma>/r)^12 - (\<sigma>/r)^6]\<close>, the magnitude
  \<open>24\<epsilon>(2(\<sigma>/r)^13 - (\<sigma>/r)^7)\<close> that it states for the pairwise force, and the
  equilibrium separation \<open>\<sigma> 2^(1/6)\<close>.
\<close>

definition lj_potential :: "real \<Rightarrow> real" where
  "lj_potential r = 4 * EPSILON * ((SIGMA_coeff / r) ^ 12 - (SIGMA_coeff / r) ^ 6)"

definition spec_force_magnitude :: "real \<Rightarrow> real" where
  "spec_force_magnitude r =
     24 * EPSILON * (2 * (SIGMA_coeff / r) ^ 13 - (SIGMA_coeff / r) ^ 7)"

definition r_eq :: real where
  "r_eq = SIGMA_coeff * root 6 2"

section \<open>Closed forms\<close>

text \<open>
  Auxiliary functions in which the results of the loops are stated: the acceleration
  matrix that \<open>calc_accel\<close> fills in, the velocity column that one pass of
  \<open>border_loop\<close> leaves for a particle at position \<open>p\<close> with velocity \<open>v\<close>, and the
  three matrices after one pass of the body of \<open>simulate\<close>.
\<close>

definition accel_cols :: "matrix \<Rightarrow> matrix" where
  "accel_cols mp =
     map (\<lambda>i. rowwise_sum (calc_lenjon_force (mp ! i) (drop (Suc i) mp))) [0..<length mp]"

definition reflect ::
  "real \<Rightarrow> real \<Rightarrow> real \<Rightarrow> real \<Rightarrow> real \<Rightarrow> real \<Rightarrow> vec3 \<Rightarrow> vec3 \<Rightarrow> vec3" where
  "reflect left right top' bottom front back p v =
     (if coeff p 0 > right \<or> coeff p 0 < left then - coeff v 0 else coeff v 0,
      if coeff p 1 > top' \<or> coeff p 1 < bottom then - coeff v 1 else coeff v 1,
      if coeff p 2 > back \<or> coeff p 2 < front then - coeff v 2 else coeff v 2)"

definition step_positions :: "real \<Rightarrow> sim_state \<Rightarrow> matrix" where
  "step_positions td s =
     map2 vadd (map2 vadd (positions s) (mscale td (velocities s)))
       (mscale (td ^ 2) (mscale (1 / 2) (accelerations s)))"

definition step_accelerations :: "real \<Rightarrow> sim_state \<Rightarrow> matrix" where
  "step_accelerations td s = map2 vadd (accel_cols (step_positions td s)) (accelerations s)"

definition step_velocities :: "real \<Rightarrow> real \<Rightarrow> sim_state \<Rightarrow> matrix" where
  "step_velocities td po s =
     map2 (reflect 0 po 0 po 0 po) (step_positions td s)
       (map2 vadd (velocities s) (mscale td (mscale (1 / 2) (step_accelerations td s))))"



text \<open>
  The position matrix that the loop of \<open>init_grid\<close> writes for \<open>n\<close> particles when
  \<^verbatim>\<open>(int)po\<close> is \<open>s\<close>: particle \<open>k\<close> is put at \<open>(k mod s, (k div s) mod s, k div s\<^sup>2)\<close>.
\<close>

definition lattice_cols :: "nat \<Rightarrow> nat \<Rightarrow> matrix" where
  "lattice_cols s n =
     map (\<lambda>k. (real (k mod s), real (k div s mod s), real (k div s div s))) [0..<n]"

text \<open>The lattice that \<open>init_grid\<close> writes for eight particles.\<close>

definition lattice8 :: matrix where
  "lattice8 = [(0, 0, 0), (1, 0, 0), (0, 1, 0), (1, 1, 0),
               (0, 0, 1), (1, 0, 1), (0, 1, 1), (1, 1, 1)]"

section \<open>Properties of the force engine\<close>

declare calc_accel_loop.simps [simp del]

lemma vsub_vadd_cancel: "vsub (vadd p t) (vadd q t) = vsub p q"
  by (cases p, cases q, cases t) simp

lemma calc_lenjon_force_translate:
  "calc_lenjon_force (vadd vp t) (map (\<lambda>p. vadd p t) mp) = calc_lenjon_force vp mp"
  by (simp add: calc_lenjon_force_def Let_def vsub_vadd_cancel o_def)

lemma calc_lenjon_force_Nil: "calc_lenjon_force vp [] = []"
  by (simp add: calc_lenjon_force_def)

lemma rowwise_sum_Nil: "rowwise_sum [] = vzero"
  by (simp add: rowwise_sum_def)

lemma block_cols_map: "block_cols (map f m) j n = map f (block_cols m j n)"
  by (simp add: block_cols_def take_map drop_map)

lemma block_cols_rest [simp]: "block_cols mp (Suc k) (length mp - Suc k) = drop (Suc k) mp"
  by (simp add: block_cols_def)

lemma calc_accel_loop_translate:
  "calc_accel_loop k (map (\<lambda>p. vadd p t) mp) ma = calc_accel_loop k mp ma"
proof (induction k mp ma rule: calc_accel_loop.induct)
  case (1 k mp ma)
  show ?case
  proof (cases "k < length mp")
    case True
    then show ?thesis
      using "1.IH"
      by (simp add: calc_accel_loop.simps[of k mp ma]
          calc_accel_loop.simps[of k "map (\<lambda>p. vadd p t) mp" ma]
          block_cols_map calc_lenjon_force_translate Let_def split: option.split)
  next
    case False
    then show ?thesis
      by (simp add: calc_accel_loop.simps)
  qed
qed

text \<open>
  What the loop of \<open>calc_accel\<close> returns when the acceleration matrix has a column for
  every particle: the columns from \<open>k\<close> on are overwritten, column \<open>i\<close> with the sum of
  the forces that \<open>calc_lenjon_force\<close> computes from the particles after \<open>i\<close>.
\<close>

lemma calc_accel_loop_result:
  "length mp \<le> length ma \<Longrightarrow>
   \<exists>r. calc_accel_loop k mp ma = Some r \<and> length r = length ma \<and>
       (\<forall>i<length ma. r ! i =
          (if k \<le> i \<and> i < length mp
           then rowwise_sum (calc_lenjon_force (mp ! i) (drop (Suc i) mp))
           else ma ! i))"
proof (induction k mp ma rule: calc_accel_loop.induct)
  case (1 k mp ma)
  show ?case
  proof (cases "k < length mp")
    case True
    let ?v = "rowwise_sum (calc_lenjon_force (mp ! k) (drop (Suc k) mp))"
    from True "1.prems" have sc: "set_col ma k ?v = Some (ma[k := ?v])"
      by (simp add: set_col_def)
    then have sc': "set_col ma k (rowwise_sum (calc_lenjon_force (mp ! k)
        (block_cols mp (k + 1) (length mp - k - 1)))) = Some (ma[k := ?v])"
      by simp
    have "length mp \<le> length (ma[k := ?v])"
      using "1.prems" by simp
    from "1.IH"[OF True refl refl sc' this]
    obtain r where r: "calc_accel_loop (k + 1) mp (ma[k := ?v]) = Some r"
      "length r = length ma"
      "\<forall>i<length ma. r ! i =
          (if k + 1 \<le> i \<and> i < length mp
           then rowwise_sum (calc_lenjon_force (mp ! i) (drop (Suc i) mp))
           else ma[k := ?v] ! i)"
      by auto
    have "calc_accel_loop k mp ma = Some r"
      using True sc r(1) by (subst calc_accel_loop.simps) (simp add: Let_def)
    moreover have "\<forall>i<length ma. r ! i =
          (if k \<le> i \<and> i < length mp
           then rowwise_sum (calc_lenjon_force (mp ! i) (drop (Suc i) mp))
           else ma ! i)"
    proof (intro allI impI)
      fix i assume i: "i < length ma"
      show "r ! i = (if k \<le> i \<and> i < length mp
           then rowwise_sum (calc_lenjon_force (mp ! i) (drop (Suc i) mp))
           else ma ! i)"
        using r(3) i True by (cases "i = k") auto
    qed
    ultimately show ?thesis using r(2) by blast
  next
    case False
    then show ?thesis
      by (subst calc_accel_loop.simps) auto
  qed
qed

lemma calc_lenjon_force_pair:
  "calc_lenjon_force vp [p] =
     [vscale (24 * EPSILON * (2 * (SIGMA_coeff / vnorm (vsub p vp)) ^ 7
                - (SIGMA_coeff / vnorm (vsub p vp)) ^ 13) / vnorm (vsub p vp)) (vsub p vp)]"
  by (simp add: calc_lenjon_force_def Let_def divide_inverse mult.commute)

lemma vnorm_axis: "vnorm (x, 0, 0) = \<bar>x\<bar>"
  by simp

lemma lj_potential_deriv:
  assumes "0 < r"
  shows "(lj_potential has_real_derivative
           - (24 * EPSILON / r * (2 * (SIGMA_coeff / r) ^ 12 - (SIGMA_coeff / r) ^ 6))) (at r)"
  unfolding lj_potential_def [abs_def]
  using assms
  apply (auto intro!: derivative_eq_intros simp: field_simps power_divide)
  apply algebra
  done

lemma r_eq_gt: "SIGMA_coeff < r_eq"
proof -
  have "root 6 1 < root 6 2" by (simp del: real_root_one)
  then have "1 < root 6 2" by simp
  then show ?thesis by (simp add: r_eq_def SIGMA_coeff_def)
qed

lemma root62_pos: "0 < root 6 2"
  by simp

lemma root62_pow: "root 6 2 ^ 6 = 2"
  by simp

lemma root62_pow13: "root 6 2 ^ 13 = 2 * root 6 2 ^ 7"
proof -
  have "root 6 2 ^ 13 = root 6 2 ^ (6 + 7)"
    by simp
  also have "\<dots> = root 6 2 ^ 6 * root 6 2 ^ 7"
    by (rule power_add)
  finally show ?thesis
    by (simp only: root62_pow)
qed

lemma force_at_r_eq:
  "calc_lenjon_force (0, 0, 0) [(r_eq, 0, 0)] = [(36 / root 6 2 ^ 7, 0, 0)]"
proof -
  have pos: "0 < r_eq"
    by (simp add: r_eq_def SIGMA_coeff_def)
  have v: "vsub (r_eq, 0, 0) (0, 0, 0) = (r_eq, 0, 0)"
    by simp
  have n: "vnorm (r_eq, 0, 0) = r_eq"
    unfolding vnorm_axis using pos by simp
  have s: "SIGMA_coeff / r_eq = 1 / root 6 2"
    by (simp add: r_eq_def SIGMA_coeff_def)
  have "24 * EPSILON * (2 * (1 / root 6 2) ^ 7 - (1 / root 6 2) ^ 13) = 36 / root 6 2 ^ 7"
    by (simp add: EPSILON_def power_divide root62_pow13)
  then have "calc_lenjon_force (0, 0, 0) [(r_eq, 0, 0)] = [vscale (36 / root 6 2 ^ 7 / r_eq) (r_eq, 0, 0)]"
    by (simp only: calc_lenjon_force_pair v n s)
  then show ?thesis
    using pos by simp
qed

lemma calc_accel_eq:
  assumes "length ma = length mp"
  shows "calc_accel mp ma = Some (accel_cols mp)"
proof -
  from assms have "length mp \<le> length ma" by simp
  from calc_accel_loop_result[OF this, of 0]
  obtain r where r: "calc_accel_loop 0 mp ma = Some r" "length r = length ma"
    "\<forall>i<length ma. r ! i =
          (if 0 \<le> i \<and> i < length mp
           then rowwise_sum (calc_lenjon_force (mp ! i) (drop (Suc i) mp))
           else ma ! i)"
    by blast
  have "r = accel_cols mp"
    using r(2,3) assms by (intro nth_equalityI) (auto simp: accel_cols_def)
  with r(1) show ?thesis by (simp add: calc_accel_def)
qed

lemma length_accel_cols [simp]: "length (accel_cols mp) = length mp"
  by (simp add: accel_cols_def)

text \<open>
  Claim C1. The claim gives the pairwise force the magnitude
  \<open>24\<epsilon>(2(\<sigma>/r)^13 - (\<sigma>/r)^7)\<close> along the unit separation vector and calls it the
  negative gradient of the 12-6 potential. The source computes
  \<open>24\<epsilon>(2(\<sigma>/r)^7 - (\<sigma>/r)^13)\<close> times the unit vector from the particle to its
  partner: the factor 2 stands at the seventh power. For a particle at the origin and a
  partner at \<open>(1, 0, 0)\<close>, so \<open>r = 1\<close>, the force that \<open>calc_lenjon_force\<close> returns is
  neither the claim's magnitude along the separation vector (in either direction) nor
  of the size of the negative gradient of the potential at \<open>r = 1\<close>, which the
  derivative in the statement gives.
\<close>

theorem calc_lenjon_force_not_spec_law:
  "vnorm (vsub (1, 0, 0) (0, 0, 0)) = 1 \<and>
   calc_lenjon_force (0, 0, 0) [(1, 0, 0)] = [(24 * (2 * (1 / 10) ^ 7 - (1 / 10) ^ 13), 0, 0)] \<and>
   spec_force_magnitude 1 = 24 * (2 * (1 / 10) ^ 13 - (1 / 10) ^ 7) \<and>
   (lj_potential has_real_derivative - (24 * (2 * (1 / 10) ^ 12 - (1 / 10) ^ 6))) (at 1) \<and>
   calc_lenjon_force (0, 0, 0) [(1, 0, 0)] \<noteq> [vscale (spec_force_magnitude 1) (1, 0, 0)] \<and>
   calc_lenjon_force (0, 0, 0) [(1, 0, 0)] \<noteq> [vscale (spec_force_magnitude 1) (- 1, 0, 0)]"
proof -
  have "(lj_potential has_real_derivative - (24 * (2 * (1 / 10) ^ 12 - (1 / 10) ^ 6))) (at 1)"
    using lj_potential_deriv[of 1] by (simp add: SIGMA_coeff_def EPSILON_def)
  then show ?thesis
    by (simp add: calc_lenjon_force_pair spec_force_magnitude_def SIGMA_coeff_def EPSILON_def
        power_divide)
qed

text \<open>
  Claim C2. The claim puts the zero of the pairwise force at \<open>r_eq = \<sigma> 2^(1/6)\<close>, with
  repulsion below and attraction above. In the source the force changes sign at
  \<open>\<sigma> / 2^(1/6)\<close> instead. For a particle at the origin and a partner at
  \<open>(1/10, 0, 0)\<close>, at distance \<open>\<sigma> < r_eq\<close>, the force on the particle is \<open>(24, 0, 0)\<close>:
  it points to the partner, so it attracts where the claim requires repulsion. With the
  partner at distance \<open>r_eq\<close> the force is \<open>(36 / 2^(7/6), 0, 0)\<close>, not zero.
\<close>

theorem calc_lenjon_force_attracts_below_r_eq:
  "vnorm (vsub (1 / 10, 0, 0) (0, 0, 0)) = 1 / 10 \<and> 1 / 10 < r_eq \<and>
   calc_lenjon_force (0, 0, 0) [(1 / 10, 0, 0)] = [(24, 0, 0)] \<and>
   calc_lenjon_force (0, 0, 0) [(r_eq, 0, 0)] = [(36 / root 6 2 ^ 7, 0, 0)] \<and>
   0 < 36 / root 6 2 ^ 7"
proof -
  have v: "vsub (1 / 10, 0, 0) (0, 0, 0) = (1 / 10, 0, 0)"
    by simp
  have n: "vnorm (1 / 10, 0, 0) = 1 / 10"
    unfolding vnorm_axis by simp
  have "calc_lenjon_force (0, 0, 0) [(1 / 10, 0, 0)] = [(24, 0, 0)]"
    by (simp only: calc_lenjon_force_pair v n) (simp add: SIGMA_coeff_def EPSILON_def)
  with n v r_eq_gt force_at_r_eq show ?thesis
    by (simp add: SIGMA_coeff_def)
qed

text \<open>
  Claim C3. The claim has every pair interaction applied to both members with opposite
  signs. In the source each particle receives only the forces computed from the
  particles after it, and nothing is applied to the partner. For two particles at the
  origin and at \<open>(1, 0, 0)\<close> the force of the second on the first is the first number,
  the force of the first on the second is its negation, and the acceleration matrix that
  \<open>calc_accel\<close> returns holds the first and the zero vector for the second particle.
\<close>

theorem calc_accel_no_reaction:
  "calc_lenjon_force (0, 0, 0) [(1, 0, 0)] = [(24 * (2 * (1 / 10) ^ 7 - (1 / 10) ^ 13), 0, 0)] \<and>
   calc_lenjon_force (1, 0, 0) [(0, 0, 0)] = [(- (24 * (2 * (1 / 10) ^ 7 - (1 / 10) ^ 13)), 0, 0)] \<and>
   calc_accel [(0, 0, 0), (1, 0, 0)] [(0, 0, 0), (0, 0, 0)] =
     Some [(24 * (2 * (1 / 10) ^ 7 - (1 / 10) ^ 13), 0, 0), (0, 0, 0)]"
  by (simp add: calc_accel_def calc_accel_loop.simps set_col_def block_cols_def
      calc_lenjon_force_def rowwise_sum_def vzero_def SIGMA_coeff_def EPSILON_def Let_def
      power_divide)

text \<open>
  Claim C9. The force engine is translation-invariant in exact arithmetic: for every
  position matrix \<open>mp\<close> and every vector \<open>t\<close>, \<open>calc_accel\<close> on the positions all
  shifted by \<open>t\<close> returns the same acceleration matrix as on \<open>mp\<close> itself (and stops on
  Eigen's assertion on the one exactly when it does on the other).
\<close>

theorem calc_accel_translation_invariant:
  "calc_accel (map (\<lambda>p. vadd p t) mp) ma = calc_accel mp ma"
  by (simp add: calc_accel_def calc_accel_loop_translate)



section \<open>Properties of the boundary handler and the integrator\<close>

declare border_loop.simps [simp del]

lemma border_loop_unfold:
  assumes "k < length mp" and "k < length mv"
  shows "border_loop k mp mv left right top' bottom front back =
         border_loop (Suc k) mp (mv[k := reflect left right top' bottom front back (mp ! k) (mv ! k)])
           left right top' bottom front back"
proof -
  obtain vx vy vz where v: "mv ! k = (vx, vy, vz)"
    by (cases "mv ! k") auto
  then have same: "mv[k := (vx, vy, vz)] = mv"
    by (metis list_update_id)
  show ?thesis
    using assms
    by (subst border_loop.simps) (simp add: mul_coeff_def reflect_def v same)
qed

lemma border_loop_result:
  "length mp \<le> length mv \<Longrightarrow>
   \<exists>r. border_loop k mp mv left right top' bottom front back = Some r \<and>
       length r = length mv \<and>
       (\<forall>i<length mv. r ! i =
          (if k \<le> i \<and> i < length mp
           then reflect left right top' bottom front back (mp ! i) (mv ! i)
           else mv ! i))"
proof (induction "length mp - k" arbitrary: k mv)
  case 0
  then have "\<not> k < length mp" by simp
  then show ?case
    by (subst border_loop.simps) auto
next
  case (Suc n)
  then have k: "k < length mp" "k < length mv" by auto
  let ?mv = "mv[k := reflect left right top' bottom front back (mp ! k) (mv ! k)]"
  have "n = length mp - Suc k" using Suc.hyps(2) by simp
  moreover have "length mp \<le> length ?mv" using Suc.prems by simp
  ultimately obtain r where r:
    "border_loop (Suc k) mp ?mv left right top' bottom front back = Some r"
    "length r = length ?mv"
    "\<forall>i<length ?mv. r ! i =
          (if Suc k \<le> i \<and> i < length mp
           then reflect left right top' bottom front back (mp ! i) (?mv ! i)
           else ?mv ! i)"
    using Suc.hyps(1)[of "Suc k" ?mv] by blast
  have "\<forall>i<length mv. r ! i =
          (if k \<le> i \<and> i < length mp
           then reflect left right top' bottom front back (mp ! i) (mv ! i)
           else mv ! i)"
  proof (intro allI impI)
    fix i assume "i < length mv"
    then show "r ! i = (if k \<le> i \<and> i < length mp
           then reflect left right top' bottom front back (mp ! i) (mv ! i)
           else mv ! i)"
      using r(3) k by (cases "i = k") auto
  qed
  with r(1,2) show ?case
    by (simp add: border_loop_unfold[OF k])
qed

lemma border_handling_eq:
  assumes "length mv = length mp"
  shows "border_handling mp mv True left right top' bottom front back =
         Some (mp, map2 (reflect left right top' bottom front back) mp mv)"
proof -
  from assms have "length mp \<le> length mv" by simp
  from border_loop_result[OF this, of 0 left right top' bottom front "back"]
  obtain r where r: "border_loop 0 mp mv left right top' bottom front back = Some r"
    "length r = length mv"
    "\<forall>i<length mv. r ! i =
          (if 0 \<le> i \<and> i < length mp
           then reflect left right top' bottom front back (mp ! i) (mv ! i)
           else mv ! i)"
    by blast
  have "r = map2 (reflect left right top' bottom front back) mp mv"
    using r(2,3) assms by (intro nth_equalityI) auto
  with r(1) show ?thesis by (simp add: border_handling_def)
qed

declare simulate_loop.simps [simp del]

lemma madd_eq: "length a = length b \<Longrightarrow> madd a b = Some (map2 vadd a b)"
  by (simp add: madd_def)

lemma length_mscale [simp]: "length (mscale k m) = length m"
  by (simp add: mscale_def)

lemma length_step_positions:
  "length (velocities s) = length (positions s) \<Longrightarrow>
   length (accelerations s) = length (positions s) \<Longrightarrow>
   length (step_positions td s) = length (positions s)"
  by (simp add: step_positions_def)

lemma length_step_accelerations:
  "length (velocities s) = length (positions s) \<Longrightarrow>
   length (accelerations s) = length (positions s) \<Longrightarrow>
   length (step_accelerations td s) = length (positions s)"
  by (simp add: step_accelerations_def length_step_positions)


lemma simulate_step_eq:
  assumes v: "length (velocities s) = length (positions s)"
    and a: "length (accelerations s) = length (positions s)"
  shows "simulate_step ts td po serialize s =
     Some (s\<lparr>positions := step_positions td s,
             velocities := step_velocities td po s,
             accelerations := step_accelerations td s,
             written := (if serialize then written s @ [(ts, step_positions td s)]
                         else written s)\<rparr>)"
proof -
  let ?mp0 = "map2 vadd (positions s) (mscale td (velocities s))"
  have 1: "madd (positions s) (mscale td (velocities s)) = Some ?mp0"
    using v by (simp add: madd_eq)
  have 2: "madd ?mp0 (mscale (td ^ 2) (mscale (1 / 2) (accelerations s)))
      = Some (step_positions td s)"
    using v a by (simp add: madd_eq step_positions_def)
  have 3: "calc_accel (step_positions td s) (accelerations s)
      = Some (accel_cols (step_positions td s))"
    using v a by (simp add: calc_accel_eq length_step_positions)
  have 4: "madd (accel_cols (step_positions td s)) (accelerations s)
      = Some (step_accelerations td s)"
    using v a by (simp add: madd_eq step_accelerations_def length_step_positions)
  let ?mv1 = "map2 vadd (velocities s) (mscale td (mscale (1 / 2) (step_accelerations td s)))"
  have 5: "madd (velocities s) (mscale td (mscale (1 / 2) (step_accelerations td s))) = Some ?mv1"
    using v a by (simp add: madd_eq length_step_accelerations)
  have 6: "border_handling (step_positions td s) ?mv1 True 0 po 0 po 0 po
      = Some (step_positions td s, step_velocities td po s)"
    using v a
    by (simp add: border_handling_eq step_velocities_def length_step_positions
        length_step_accelerations)
  show ?thesis
    by (simp add: simulate_step_def 1 2 3 4 5 6 Let_def)
qed













lemma reflect_as_invoked:
  "0 < po \<Longrightarrow> reflect 0 po 0 po 0 po (x, y, z) (vx, vy, vz) =
     (if x > po \<or> x < 0 then - vx else vx, - vy, if z > po \<or> z < 0 then - vz else vz)"
  by (auto simp: reflect_def)

lemma accel_cols_single: "accel_cols [p] = [vzero]"
  by (simp add: accel_cols_def calc_lenjon_force_Nil rowwise_sum_Nil)

lemma simulate_loop_one:
  assumes "length (velocities s) = length (positions s)"
    and "length (accelerations s) = length (positions s)"
    and "0 < tts" and "tts \<le> 1"
  shows "simulate_loop 0 tts td po serialize s =
     Some (s\<lparr>positions := step_positions td s,
             velocities := step_velocities td po s,
             accelerations := step_accelerations td s,
             written := (if serialize then written s @ [(0, step_positions td s)]
                         else written s)\<rparr>)"
proof -
  have "simulate_loop (0 + 1) tts td po serialize
      (s\<lparr>positions := step_positions td s,
             velocities := step_velocities td po s,
             accelerations := step_accelerations td s,
             written := (if serialize then written s @ [(0, step_positions td s)]
                         else written s)\<rparr>) =
     Some (s\<lparr>positions := step_positions td s,
             velocities := step_velocities td po s,
             accelerations := step_accelerations td s,
             written := (if serialize then written s @ [(0, step_positions td s)]
                         else written s)\<rparr>)"
    using assms(4) by (subst simulate_loop.simps) simp
  then show ?thesis
    using assms(3) simulate_step_eq[OF assms(1,2), of 0 td po serialize]
    by (subst simulate_loop.simps) (simp add: INT_MAX_def)
qed

section \<open>Properties of the initialisation\<close>

declare init_grid_loop.simps [simp del]

lemma root3_8: "root 3 8 = (2::real)"
  using real_root_power_cancel[of 3 "2::real"] by simp

lemma cbrt_8: "cbrt 8 = 2"
  by (simp add: cbrt_def root3_8)

lemma cbrt_1: "cbrt 1 = 1"
  by (simp add: cbrt_def)




lemma smod_small: "0 \<le> a \<Longrightarrow> 0 < b \<Longrightarrow> (a::int) smod b = a mod b"
  by (simp add: signed_modulo_int_def sgn_if)

lemma init_grid_loop_step:
  assumes "k < length mp"
  shows "init_grid_loop k px py pz po mp =
     init_grid_loop (Suc k)
       (if (px + 1) smod c_trunc po = 0 then 0 else px + 1)
       (if (if (px + 1) smod c_trunc po = 0 then py + 1 else py) \<noteq> 0 \<and>
           (if (px + 1) smod c_trunc po = 0 then py + 1 else py) smod c_trunc po = 0
        then 0 else (if (px + 1) smod c_trunc po = 0 then py + 1 else py))
       (if (if (px + 1) smod c_trunc po = 0 then py + 1 else py) \<noteq> 0 \<and>
           (if (px + 1) smod c_trunc po = 0 then py + 1 else py) smod c_trunc po = 0
        then pz + 1 else pz)
       po (mp[k := (of_int px, of_int py, of_int pz)])"
  using assms by (subst init_grid_loop.simps) (simp add: Let_def)

lemma init_grid_loop_done: "length mp \<le> k \<Longrightarrow> init_grid_loop k px py pz po mp = mp"
  by (subst init_grid_loop.simps) simp

lemma init_grid_loop_8:
  "init_grid_loop 0 0 0 0 2 [a, b, c, d, e, f, g, h] =
     [(0, 0, 0), (1, 0, 0), (0, 1, 0), (1, 1, 0),
      (0, 0, 1), (1, 0, 1), (0, 1, 1), (1, 1, 1)]"
proof -
  have t: "c_trunc 2 = 2" by (simp add: c_trunc_def)
  show ?thesis
    by (simp add: init_grid_loop_step init_grid_loop_done t smod_small)
qed

lemma length_init_grid_loop: "length (init_grid_loop k px py pz po mp) = length mp"
proof (induction "length mp - k" arbitrary: k px py pz mp)
  case 0
  then show ?case by (simp add: init_grid_loop_done)
next
  case (Suc n)
  then have k: "k < length mp" by simp
  have "n = length (mp[k := (of_int px, of_int py, of_int pz)]) - Suc k"
    using Suc.hyps(2) by simp
  from Suc.hyps(1)[OF this] show ?case
    by (simp add: init_grid_loop_step[OF k])
qed



lemma length_lattice_cols [simp]: "length (lattice_cols s n) = n"
  by (simp add: lattice_cols_def)





lemma init_grid_eight:
  assumes "length mp = 8"
  shows "init_grid mp = ([], lattice8)"
proof -
  from assms obtain a b c d e f g h where mp: "mp = [a, b, c, d, e, f, g, h]"
    by (auto simp: eval_nat_numeral length_Suc_conv)
  have t: "c_trunc 2 = 2" by (simp add: c_trunc_def)
  have fm: "fmod 2 1 = 0" by (simp add: fmod_def t)
  show ?thesis
    by (simp add: mp init_grid_def cbrt_8 fm init_grid_loop_8 Let_def lattice8_def)
qed

text \<open>
  Claim C8. For a position matrix of eight particles, \<open>init_grid\<close> prints nothing and
  writes the eight points of \<open>{0,1}\<^sup>3\<close>, each once, in the order in which \<open>x\<close> runs
  fastest, then \<open>y\<close>, then \<open>z\<close>.
\<close>

theorem init_grid_8:
  assumes "length mp = 8"
  shows "init_grid mp =
      ([], [(0, 0, 0), (1, 0, 0), (0, 1, 0), (1, 1, 0),
            (0, 0, 1), (1, 0, 1), (0, 1, 1), (1, 1, 1)]) \<and>
    distinct (snd (init_grid mp)) \<and>
    set (snd (init_grid mp)) = {0, 1} \<times> {0, 1} \<times> {0, 1}"
proof -
  have g: "init_grid mp =
      ([], [(0, 0, 0), (1, 0, 0), (0, 1, 0), (1, 1, 0),
            (0, 0, 1), (1, 0, 1), (0, 1, 1), (1, 1, 1)])"
    using init_grid_eight[OF assms] by (simp add: lattice8_def)
  have d: "distinct [(0, 0, 0), (1, 0, 0), (0, 1, 0), (1, 1, 0),
            (0, 0, 1), (1, 0, 1), (0, 1, 1), (1::real, 1::real, 1::real)]"
    by simp
  have s: "set [(0, 0, 0), (1, 0, 0), (0, 1, 0), (1, 1, 0),
            (0, 0, 1), (1, 0, 1), (0, 1, 1), (1::real, 1::real, 1::real)]
        = {0, 1} \<times> {0, 1} \<times> {0, 1}"
    by auto
  from g d s show ?thesis
    by simp
qed

theorem init_grid_8_witness:
  "length (replicate 8 (7, 7, 7) :: matrix) = 8 \<and>
   init_grid (replicate 8 (7, 7, 7)) =
      ([], [(0, 0, 0), (1, 0, 0), (0, 1, 0), (1, 1, 0),
            (0, 0, 1), (1, 0, 1), (0, 1, 1), (1, 1, 1)])"
  using init_grid_8[of "replicate 8 (7, 7, 7)"] by simp




section \<open>The claims on the boundary handler and the integrator\<close>

lemma accel_cols_lattice8_6:
  "accel_cols lattice8 ! 6 = (24 * (2 * (1 / 10) ^ 7 - (1 / 10) ^ 13), 0, 0)"
proof -
  have "accel_cols lattice8 ! 6 =
      rowwise_sum (calc_lenjon_force (lattice8 ! 6) (drop (Suc 6) lattice8))"
    by (simp add: accel_cols_def lattice8_def)
  also have "lattice8 ! 6 = (0, 1, 1)"
    by (simp add: lattice8_def)
  also have "drop (Suc 6) lattice8 = [(1, 1, 1)]"
    by (simp add: lattice8_def)
  also have "rowwise_sum (calc_lenjon_force (0, 1, 1) [(1, 1, 1)]) =
      (24 * (2 * (1 / 10) ^ 7 - (1 / 10) ^ 13), 0, 0)"
    by (simp add: calc_lenjon_force_pair rowwise_sum_def vzero_def SIGMA_coeff_def EPSILON_def
        power_divide)
  finally show ?thesis .
qed

lemma vadd_neq: "c \<noteq> 0 \<Longrightarrow> vadd x (c, 0, 0) \<noteq> x"
  by (cases x) simp

text \<open>
  Claim C4. The claim has every step after the first start from the acceleration that the
  force engine computed on the previous step's updated positions alone. The source adds
  the old acceleration into \<^verbatim>\<open>ma\<close> and leaves the sum there. For the lattice of eight
  particles at rest, the time step of the program and one step, the acceleration matrix
  of the returned state, from which a next step would start, differs from the
  accelerations \<open>a_new\<close> of its positions: in column 6 by the acceleration computed
  before the step.
\<close>

theorem simulate_carries_acceleration_sum:
  "\<exists>s1 a_new.
     simulate lattice8 (replicate 8 (0, 0, 0)) (replicate 8 (0, 0, 0)) (1 / 10 ^ 6) 1 False
       = Some s1 \<and>
     calc_accel (positions s1) (accelerations s1) = Some a_new \<and>
     accelerations s1 ! 6 = vadd (a_new ! 6) (24 * (2 * (1 / 10) ^ 7 - (1 / 10) ^ 13), 0, 0) \<and>
     accelerations s1 \<noteq> a_new"
proof -
  let ?td = "1 / 10 ^ 6 :: real"
  let ?out = "if fmod (cbrt (real (length lattice8))) 1 \<noteq> 0 then [wrong_size_msg] else []"
  let ?s0 = "\<lparr>positions = lattice8, velocities = replicate 8 (0, 0, 0),
      accelerations = accel_cols lattice8, stdout = ?out, written = []\<rparr>"
  let ?po = "cbrt (real (length lattice8))"
  let ?s1 = "?s0\<lparr>positions := step_positions ?td ?s0,
             velocities := step_velocities ?td ?po ?s0,
             accelerations := step_accelerations ?td ?s0,
             written := (if False then written ?s0 @ [(0, step_positions ?td ?s0)]
                         else written ?s0)\<rparr>"
  have len: "length lattice8 = 8"
    by (simp add: lattice8_def)
  have lv: "length (velocities ?s0) = length (positions ?s0)"
    and la: "length (accelerations ?s0) = length (positions ?s0)"
    by (simp_all add: len)
  have "calc_accel lattice8 (replicate 8 (0, 0, 0)) = Some (accel_cols lattice8)"
    by (rule calc_accel_eq) (simp add: len)
  then have run: "simulate lattice8 (replicate 8 (0, 0, 0)) (replicate 8 (0, 0, 0)) ?td 1 False
      = Some ?s1"
    using simulate_loop_one[OF lv la, of 1 ?td ?po False]
    by (simp add: simulate_def Let_def)
  have lp: "length (step_positions ?td ?s0) = 8"
    using length_step_positions[OF lv la, of ?td] by (simp add: len)
  have new: "calc_accel (positions ?s1) (accelerations ?s1)
      = Some (accel_cols (step_positions ?td ?s0))"
    using length_step_accelerations[OF lv la, of ?td] lp
    by (simp add: calc_accel_eq len)
  have col: "accelerations ?s1 ! 6 =
      vadd (accel_cols (step_positions ?td ?s0) ! 6)
        (24 * (2 * (1 / 10) ^ 7 - (1 / 10) ^ 13), 0, 0)"
    using lp by (simp add: step_accelerations_def len accel_cols_lattice8_6)
  have "accelerations ?s1 ! 6 \<noteq> accel_cols (step_positions ?td ?s0) ! 6"
    unfolding col by (rule vadd_neq) (simp add: power_divide)
  then have "accelerations ?s1 \<noteq> accel_cols (step_positions ?td ?s0)"
    by auto
  with run new col show ?thesis
    by blast
qed

text \<open>
  Claim C5. The claim has the boundary handling, as \<open>simulate\<close> invokes it, flip only the
  velocity component of an axis on which the particle is outside the cell. The call in
  \<open>simulate\<close> passes \<open>0, po, 0, po, 0, po\<close> for left, right, top, bottom, front, back, so
  the test of the second axis is \<open>y > 0 \<or> y < po\<close>, which holds for every \<open>y\<close> when
  \<open>po > 0\<close>. One particle that one step takes from \<open>(1/4, 1/2, 1/2)\<close> to
  \<open>(1/2, 3/4, 3/4)\<close>, inside the cell \<open>[0, 1]\<^sup>3\<close>, has its second velocity component
  negated; and the same call for a particle at \<open>(3/2, 1/2, 1/2)\<close>, outside on the first
  axis only, negates the first and the second component.
\<close>

theorem simulate_border_flips_inside:
  "simulate [(1 / 4, 1 / 2, 1 / 2)] [(1 / 4, 1 / 4, 1 / 4)] [(0, 0, 0)] 1 1 False =
     Some \<lparr>positions = [(1 / 2, 3 / 4, 3 / 4)], velocities = [(1 / 4, - (1 / 4), 1 / 4)],
           accelerations = [(0, 0, 0)], stdout = [], written = []\<rparr> \<and>
   border_handling [(3 / 2, 1 / 2, 1 / 2)] [(1, 1, 1)] True 0 1 0 1 0 1 =
     Some ([(3 / 2, 1 / 2, 1 / 2)], [(- 1, - 1, 1)])"
proof -
  have t: "c_trunc 1 = 1" by (simp add: c_trunc_def)
  have fm: "fmod 1 1 = 0" by (simp add: fmod_def t)
  have "simulate [(1 / 4, 1 / 2, 1 / 2)] [(1 / 4, 1 / 4, 1 / 4)] [(0, 0, 0)] 1 1 False =
     Some \<lparr>positions = [(1 / 2, 3 / 4, 3 / 4)], velocities = [(1 / 4, - (1 / 4), 1 / 4)],
           accelerations = [(0, 0, 0)], stdout = [], written = []\<rparr>"
    by (simp add: simulate_def calc_accel_eq accel_cols_single cbrt_1 fm simulate_loop_one
        step_positions_def step_velocities_def step_accelerations_def mscale_def vzero_def
        reflect_def)
  moreover have "border_handling [(3 / 2, 1 / 2, 1 / 2)] [(1, 1, 1)] True 0 1 0 1 0 1 =
     Some ([(3 / 2, 1 / 2, 1 / 2)], [(- 1, - 1, 1)])"
    by (simp add: border_handling_eq reflect_def)
  ultimately show ?thesis by simp
qed

text \<open>
  Claim C7, as the source has it. With \<^verbatim>\<open>closed\<close> false, \<open>border_handling\<close> returns both
  matrices as they were given, whatever the positions and the bounds are, and signals
  nothing.
\<close>

theorem border_handling_open_noop:
  "border_handling mp mv False left right top' bottom front back = Some (mp, mv)"
  by (simp add: border_handling_def)

text \<open>
  The claim C7 as stated, that the open mode fails with an error and never silently does
  nothing, fails for a particle at \<open>(5, 5, 5)\<close> outside the cell \<open>[0, 1]\<^sup>3\<close>: the open
  mode returns the velocity unchanged, where the closed mode negates all three components.
\<close>

theorem border_handling_open_counterexample:
  "border_handling [(5, 5, 5)] [(1, 1, 1)] False 0 1 1 0 0 1 = Some ([(5, 5, 5)], [(1, 1, 1)]) \<and>
   border_handling [(5, 5, 5)] [(1, 1, 1)] True 0 1 1 0 0 1 = Some ([(5, 5, 5)], [(- 1, - 1, - 1)])"
proof -
  have "border_handling [(5, 5, 5)] [(1, 1, 1)] False 0 1 1 0 0 1 = Some ([(5, 5, 5)], [(1, 1, 1)])"
    by (simp add: border_handling_def)
  moreover have "border_handling [(5, 5, 5)] [(1, 1, 1)] True 0 1 1 0 0 1 =
      Some ([(5, 5, 5)], [(- 1, - 1, - 1)])"
    by (simp add: border_handling_eq reflect_def)
  ultimately show ?thesis by simp
qed

end
